theory Spec2Isabelle
  imports Main
begin

section \<open>Errors and enumerations\<close>

text \<open>
  The methods of \<^verbatim>\<open>Wallet\<close> (src/server/models/Wallet.js) are asynchronous and report
  failure by throwing. A thrown \<^verbatim>\<open>new HttpError(code, message)\<close> is the value
  \<open>HttpError code message\<close>; an error thrown by the assertion library
  \<^verbatim>\<open>expect-runtime\<close> when no error factory is supplied, and by \<^verbatim>\<open>expect.fail()\<close>, is
  \<open>AssertionError\<close>: it is not an instance of \<^verbatim>\<open>HttpError\<close>. Any other value thrown, such
  as an error of the database driver, is \<open>JsError\<close> with its message: a \<^verbatim>\<open>catch\<close> clause
  can receive it, and it is no \<^verbatim>\<open>HttpError\<close> either. A method that throws after it has written
  to a repository returns the error together with the database it leaves.
\<close>

datatype error = HttpError int string | AssertionError | JsError string

text \<open>
  Modelled from the spec: \<^verbatim>\<open>TrustRelationship.ENTITY_TRUST_STATE_TYPE\<close>
  (models/TrustRelationship.js is not among the sources). The spec enumerates the states
  \<^verbatim>\<open>requested\<close>, \<^verbatim>\<open>trusted\<close>, \<^verbatim>\<open>canceled_by_target\<close>, \<^verbatim>\<open>cancelled_by_originator\<close>; Wallet.js names the
  last three.
\<close>

datatype trust_state =
  TRUST_requested | TRUST_trusted | TRUST_canceled_by_target | TRUST_cancelled_by_originator

text \<open>
  Modelled from the spec: \<^verbatim>\<open>Transfer.STATE\<close> (models/Transfer.js is not among the sources).
  Wallet.js names all four members.
\<close>

datatype transfer_state = STATE_pending | STATE_requested | STATE_completed | STATE_cancelled

section \<open>Rows and the database\<close>

text \<open>
  A row of \<^verbatim>\<open>wallets.entity_trust\<close>. The columns are those Wallet.js and TrustRepository
  read or write. Column \<^verbatim>\<open>type\<close> is read by the duplicate scan of
  \<^verbatim>\<open>requestTrustFromAWallet\<close> and written nowhere in the sources, column \<^verbatim>\<open>state\<close> is not
  written by \<^verbatim>\<open>create\<close>: both are nullable here (\<open>None\<close> is SQL NULL, JavaScript
  \<^verbatim>\<open>null\<close>). Identifiers are JavaScript numbers holding integers; the
  \<^verbatim>\<open>expect(...).number()\<close> and \<^verbatim>\<open>expect(...).match({...})\<close> shape assertions on rows hold by
  the types of the fields, and the one assertion on the nullable column \<^verbatim>\<open>type\<close> is part of
  the duplicate scan below.
\<close>

record trust_relationship =
  trust_id :: int
  request_type :: string
  trust_type :: "string option"
  actor_entity_id :: int
  trust_originator_entity_id :: int
  target_entity_id :: int
  trust_state :: "trust_state option"

record transfer_record =
  transfer_id :: int
  transfer_originator_entity_id :: int
  source_entity_id :: int
  destination_entity_id :: int
  transfer_state :: transfer_state

record wallet_record =
  wallet_id :: int
  wallet_name :: string
  password :: string
  salt :: string

text \<open>
  The three tables, each a list of rows in table order, and the two id sequences that
  number inserted rows.
\<close>

record database =
  wallets :: "wallet_record list"
  entity_trust :: "trust_relationship list"
  entity_trust_seq :: int
  transfers :: "transfer_record list"
  transfers_seq :: int

text \<open>
  What Wallet.js takes from declarations that are not among the sources, as parameters:
  the keys of \<^verbatim>\<open>TrustRelationship.ENTITY_TRUST_REQUEST_TYPE\<close>, its member \<^verbatim>\<open>send\<close>, the
  values the table \<^verbatim>\<open>wallets.entity_trust\<close> gives the columns \<^verbatim>\<open>type\<close> and \<^verbatim>\<open>state\<close> of an
  inserted row that names neither, and whether the assertion
  \<^verbatim>\<open>expect(row).property("type").defined()\<close> of the library \<^verbatim>\<open>expect-runtime\<close> accepts a
  \<^verbatim>\<open>null\<close>.
\<close>

record environment =
  ENTITY_TRUST_REQUEST_TYPE_keys :: "string list"
  ENTITY_TRUST_REQUEST_TYPE_send :: string
  entity_trust_type_default :: "string option"
  entity_trust_state_default :: "trust_state option"
  null_is_defined :: bool

text \<open>A \<^verbatim>\<open>Wallet\<close> object holds its id (and stateless repository handles).\<close>

datatype wallet = Wallet (getId: int)

section \<open>TrustRepository\<close>

text \<open>src/unnamed/part\_001, class \<^verbatim>\<open>TrustRepository\<close>.\<close>

definition getByOriginatorId :: "int \<Rightarrow> database \<Rightarrow> trust_relationship list" where
  "getByOriginatorId i db =
     filter (\<lambda>r. trust_originator_entity_id r = i) (entity_trust db)"

definition getByTargetId :: "int \<Rightarrow> database \<Rightarrow> trust_relationship list" where
  "getByTargetId i db = filter (\<lambda>r. target_entity_id r = i) (entity_trust db)"

definition getTrustedByOriginatorId :: "int \<Rightarrow> database \<Rightarrow> trust_relationship list" where
  "getTrustedByOriginatorId i db =
     filter (\<lambda>r. trust_originator_entity_id r = i \<and> trust_state r = Some TRUST_trusted)
       (entity_trust db)"

text \<open>The object \<^verbatim>\<open>requestTrustFromAWallet\<close> passes to \<^verbatim>\<open>create\<close>: four columns.\<close>

record trust_object =
  new_request_type :: string
  new_actor_entity_id :: int
  new_originator_entity_id :: int
  new_target_entity_id :: int

text \<open>
  \<^verbatim>\<open>orderBy("id", "desc").limit(1)\<close>: a row of greatest id (the earliest such row in table
  order), none on an empty table.
\<close>

fun orderBy_id_desc_limit_1 :: "trust_relationship list \<Rightarrow> trust_relationship option" where
  "orderBy_id_desc_limit_1 [] = None"
| "orderBy_id_desc_limit_1 (r # rs) =
     (case orderBy_id_desc_limit_1 rs of
        None \<Rightarrow> Some r
      | Some m \<Rightarrow> if trust_id r < trust_id m then Some m else Some r)"

definition inserted_trust_row :: "environment \<Rightarrow> trust_object \<Rightarrow> database \<Rightarrow> trust_relationship" where
  "inserted_trust_row env trustObject db =
     \<lparr> trust_id = entity_trust_seq db,
       request_type = new_request_type trustObject,
       trust_type = entity_trust_type_default env,
       actor_entity_id = new_actor_entity_id trustObject,
       trust_originator_entity_id = new_originator_entity_id trustObject,
       target_entity_id = new_target_entity_id trustObject,
       trust_state = entity_trust_state_default env \<rparr>"

definition trust_create ::
  "environment \<Rightarrow> trust_object \<Rightarrow> database \<Rightarrow> trust_relationship option \<times> database" where
  "trust_create env trustObject db =
     (let db' = db \<lparr> entity_trust := entity_trust db @ [inserted_trust_row env trustObject db],
                     entity_trust_seq := entity_trust_seq db + 1 \<rparr>
      in (orderBy_id_desc_limit_1 (entity_trust db'), db'))"

definition trust_update :: "trust_relationship \<Rightarrow> database \<Rightarrow> database" where
  "trust_update trustObject db =
     db \<lparr> entity_trust :=
            map (\<lambda>r. if trust_id r = trust_id trustObject then trustObject else r)
              (entity_trust db) \<rparr>"

section \<open>Collaborators that are not among the sources\<close>

text \<open>
  Modelled from the spec: \<^verbatim>\<open>BaseRepository.getById\<close> as \<^verbatim>\<open>TrustRepository\<close> inherits it
  (repositories/BaseRepository.js is missing). The spec: a referenced relationship that
  does not exist is \<^verbatim>\<open>NotFound\<close>.
\<close>

definition trust_getById :: "int \<Rightarrow> database \<Rightarrow> error + trust_relationship" where
  "trust_getById i db =
     (case find (\<lambda>r. trust_id r = i) (entity_trust db) of
        None \<Rightarrow> Inl (HttpError 404 ''NotFound'')
      | Some r \<Rightarrow> Inr r)"

text \<open>
  Modelled from the spec: the wallet store, \<^verbatim>\<open>WalletRepository.getById\<close>
  (repositories/WalletRepository.js is missing): "getById(id) -> WalletRecord|NotFound".
\<close>

definition wallet_getById :: "int \<Rightarrow> database \<Rightarrow> error + wallet_record" where
  "wallet_getById i db =
     (case find (\<lambda>w. wallet_id w = i) (wallets db) of
        None \<Rightarrow> Inl (HttpError 404 ''NotFound'')
      | Some w \<Rightarrow> Inr w)"

text \<open>
  Modelled from the spec: \<^verbatim>\<open>WalletService.getByName\<close> (services/WalletService.js is
  missing): "Resolves the target wallet by name, failing with NotFound if none exists."
\<close>

definition getByName :: "string \<Rightarrow> database \<Rightarrow> error + wallet" where
  "getByName n db =
     (case find (\<lambda>w. wallet_name w = n) (wallets db) of
        None \<Rightarrow> Inl (HttpError 404 ''NotFound'')
      | Some w \<Rightarrow> Inr (Wallet (wallet_id w)))"

text \<open>
  Modelled from the spec: the transfer store, \<^verbatim>\<open>TransferRepository\<close>
  (repositories/TransferRepository.js is missing): "getById(id)", "create(record) ->
  record-with-id", "update(record)" (update by id, the whole record replaced), a transfer
  that does not exist being \<^verbatim>\<open>NotFound\<close>.
\<close>

record transfer_object =
  new_transfer_originator_entity_id :: int
  new_source_entity_id :: int
  new_destination_entity_id :: int
  new_transfer_state :: transfer_state

definition inserted_transfer_row :: "transfer_object \<Rightarrow> database \<Rightarrow> transfer_record" where
  "inserted_transfer_row transferObject db =
     \<lparr> transfer_id = transfers_seq db,
       transfer_originator_entity_id = new_transfer_originator_entity_id transferObject,
       source_entity_id = new_source_entity_id transferObject,
       destination_entity_id = new_destination_entity_id transferObject,
       transfer_state = new_transfer_state transferObject \<rparr>"

definition transfer_create :: "transfer_object \<Rightarrow> database \<Rightarrow> transfer_record \<times> database" where
  "transfer_create transferObject db =
     (inserted_transfer_row transferObject db,
      db \<lparr> transfers := transfers db @ [inserted_transfer_row transferObject db],
           transfers_seq := transfers_seq db + 1 \<rparr>)"

definition transfer_getById :: "int \<Rightarrow> database \<Rightarrow> error + transfer_record" where
  "transfer_getById i db =
     (case find (\<lambda>t. transfer_id t = i) (transfers db) of
        None \<Rightarrow> Inl (HttpError 404 ''NotFound'')
      | Some t \<Rightarrow> Inr t)"

definition transfer_update :: "transfer_record \<Rightarrow> database \<Rightarrow> database" where
  "transfer_update transferObject db =
     db \<lparr> transfers :=
            map (\<lambda>t. if transfer_id t = transfer_id transferObject then transferObject else t)
              (transfers db) \<rparr>"

section \<open>Wallet\<close>

text \<open>src/server/models/Wallet.js. The first argument of every method is \<^verbatim>\<open>this\<close>.\<close>

subsection \<open>Authentication\<close>

text \<open>
  \<^verbatim>\<open>Wallet.sha512\<close>: the hexadecimal digest of \<^verbatim>\<open>Crypto.createHmac('sha512', salt)\<close> after
  \<^verbatim>\<open>update(password)\<close>. The primitive of Node's \<^verbatim>\<open>crypto\<close> module is the parameter
  \<open>createHmac_sha512\<close>, from key and message to digest.
\<close>

definition sha512 :: "(string \<Rightarrow> string \<Rightarrow> string) \<Rightarrow> string \<Rightarrow> string \<Rightarrow> string" where
  "sha512 createHmac_sha512 pw slt = createHmac_sha512 slt pw"

definition toJSON :: "wallet \<Rightarrow> database \<Rightarrow> error + wallet_record" where
  "toJSON self db = wallet_getById (getId self) db"

text \<open>The object \<^verbatim>\<open>authorize\<close> returns: its only property is \<^verbatim>\<open>id\<close>.\<close>

record authorized =
  authorized_id :: int

text \<open>
  The password is a string or absent (\<open>None\<close>: \<^verbatim>\<open>undefined\<close> or \<^verbatim>\<open>null\<close>); \<^verbatim>\<open>!password\<close>
  holds of an absent password and of the empty string.
\<close>

definition authorize ::
  "(string \<Rightarrow> string \<Rightarrow> string) \<Rightarrow> wallet \<Rightarrow> string option \<Rightarrow> database \<Rightarrow> error + authorized" where
  "authorize createHmac_sha512 self pw db =
     (case pw of
        None \<Rightarrow> Inl (HttpError 400 ''Error: Invalid credential format'')
      | Some p \<Rightarrow>
          if p = [] then Inl (HttpError 400 ''Error: Invalid credential format'')
          else
            (case toJSON self db of
               Inl e \<Rightarrow> Inl e
             | Inr walletObject \<Rightarrow>
                 if sha512 createHmac_sha512 p (salt walletObject) \<noteq> password walletObject
                 then Inl (HttpError 401 ''Invalid credentials'')
                 else Inr \<lparr> authorized_id = wallet_id walletObject \<rparr>))"

subsection \<open>Trust relationships\<close>

definition getTrustRelationshipsRequested :: "wallet \<Rightarrow> database \<Rightarrow> trust_relationship list" where
  "getTrustRelationshipsRequested self db = getByOriginatorId (getId self) db"

definition getTrustRelationshipsTargeted :: "wallet \<Rightarrow> database \<Rightarrow> trust_relationship list" where
  "getTrustRelationshipsTargeted self db = getByTargetId (getId self) db"

definition getTrustRelationshipsTrusted :: "wallet \<Rightarrow> database \<Rightarrow> trust_relationship list" where
  "getTrustRelationshipsTrusted self db = getTrustedByOriginatorId (getId self) db"

text \<open>\<^verbatim>\<open>Array.prototype.join(',')\<close> on strings.\<close>

fun join_comma :: "string list \<Rightarrow> string" where
  "join_comma [] = []"
| "join_comma [k] = k"
| "join_comma (k # ks) = k @ '','' @ join_comma ks"

text \<open>
  The regular expression \<^verbatim>\<open>/\S+/\<close> matches a string that holds a character outside the
  class \<^verbatim>\<open>\s\<close>. Strings are lists of 8-bit characters here; of those, \<^verbatim>\<open>\s\<close> holds the codes
  9 to 13, 32 and 160.
\<close>

definition is_whitespace :: "char \<Rightarrow> bool" where
  "is_whitespace c =
     (let n = (of_char c :: nat) in (9 \<le> n \<and> n \<le> 13) \<or> n = 32 \<or> n = 160)"

definition matches_non_whitespace :: "string \<Rightarrow> bool" where
  "matches_non_whitespace s = list_ex (\<lambda>c. \<not> is_whitespace c) s"

text \<open>
  The hook by which the target may veto a request: its body is \<^verbatim>\<open>//pass\<close>. The caller hands
  it \<^verbatim>\<open>this.id\<close>, a property no \<^verbatim>\<open>Wallet\<close> has (the id is \<^verbatim>\<open>this._id\<close>): the second argument
  is \<^verbatim>\<open>undefined\<close>, \<open>None\<close>.
\<close>

definition checkTrustRequestSentToMe :: "wallet \<Rightarrow> string \<Rightarrow> int option \<Rightarrow> database \<Rightarrow> error + unit" where
  "checkTrustRequestSentToMe self requestType sourceWalletId db = Inr ()"

text \<open>
  The duplicate scan,
  \<^verbatim>\<open>trustRelationships.some(trustRelationship => { expect...; return ... })\<close>: rows are
  visited in order until the callback returns true. On each row visited the callback first
  asserts that column \<^verbatim>\<open>type\<close> is defined, then compares \<^verbatim>\<open>type\<close> with the request type
  (\<^verbatim>\<open>null === requestType\<close> is false) and \<^verbatim>\<open>target_entity_id\<close> with the target's id.
\<close>

fun some_trust_requested ::
  "environment \<Rightarrow> string \<Rightarrow> int \<Rightarrow> trust_relationship list \<Rightarrow> error + bool" where
  "some_trust_requested env requestType targetId [] = Inr False"
| "some_trust_requested env requestType targetId (trustRelationship # rest) =
     (if trust_type trustRelationship = None \<and> \<not> null_is_defined env then Inl AssertionError
      else if trust_type trustRelationship = Some requestType \<and>
              target_entity_id trustRelationship = targetId
      then Inr True
      else some_trust_requested env requestType targetId rest)"

definition requestTrustFromAWallet ::
  "environment \<Rightarrow> wallet \<Rightarrow> string \<Rightarrow> string \<Rightarrow> database
     \<Rightarrow> (error + trust_relationship option) \<times> database" where
  "requestTrustFromAWallet env self requestType targetWalletName db =
     (if requestType \<notin> set (ENTITY_TRUST_REQUEST_TYPE_keys env)
      then (Inl (HttpError 400 (''The trust request type must be one of ''
                   @ join_comma (ENTITY_TRUST_REQUEST_TYPE_keys env))), db)
      else if \<not> matches_non_whitespace targetWalletName
      then (Inl (HttpError 400 ''Invalid wallet name''), db)
      else
        (case getByName targetWalletName db of
           Inl e \<Rightarrow> (Inl e, db)
         | Inr targetWallet \<Rightarrow>
             (case some_trust_requested env requestType (getId targetWallet)
                     (getTrustRelationshipsRequested self db) of
                Inl e \<Rightarrow> (Inl e, db)
              | Inr True \<Rightarrow> (Inl (HttpError 403 ''The trust requested has existed''), db)
              | Inr False \<Rightarrow>
                  (case checkTrustRequestSentToMe targetWallet requestType None db of
                     Inl e \<Rightarrow> (Inl e, db)
                   | Inr _ \<Rightarrow>
                       (case trust_create env
                               \<lparr> new_request_type = requestType,
                                 new_actor_entity_id = getId self,
                                 new_originator_entity_id = getId self,
                                 new_target_entity_id = getId targetWallet \<rparr> db of
                          (result, db') \<Rightarrow> (Inr result, db'))))))"

text \<open>
  \<^verbatim>\<open>trustRelationships.reduce((a,c) => c.id === trustRelationshipId ? c : a, undefined)\<close>:
  the last row of that id among the rows targeted at the caller.
\<close>

definition find_by_reduce :: "int \<Rightarrow> trust_relationship list \<Rightarrow> trust_relationship option" where
  "find_by_reduce trustRelationshipId trustRelationships =
     fold (\<lambda>c a. if trust_id c = trustRelationshipId then Some c else a) trustRelationships None"

definition acceptTrustRequestSentToMe :: "wallet \<Rightarrow> int \<Rightarrow> database \<Rightarrow> (error + unit) \<times> database" where
  "acceptTrustRequestSentToMe self trustRelationshipId db =
     (case find_by_reduce trustRelationshipId (getTrustRelationshipsTargeted self db) of
        None \<Rightarrow> (Inl (HttpError 403 ''Have no permission to accept this relationship''), db)
      | Some trustRelationship \<Rightarrow>
          (Inr (), trust_update (trustRelationship \<lparr> trust_state := Some TRUST_trusted \<rparr>) db))"

definition declineTrustRequestSentToMe :: "wallet \<Rightarrow> int \<Rightarrow> database \<Rightarrow> (error + unit) \<times> database" where
  "declineTrustRequestSentToMe self trustRelationshipId db =
     (case find_by_reduce trustRelationshipId (getTrustRelationshipsTargeted self db) of
        None \<Rightarrow> (Inl (HttpError 403 ''Have no permission to decline this relationship''), db)
      | Some trustRelationship \<Rightarrow>
          (Inr (),
           trust_update (trustRelationship \<lparr> trust_state := Some TRUST_canceled_by_target \<rparr>) db))"

definition cancelTrustRequestSentToMe :: "wallet \<Rightarrow> int \<Rightarrow> database \<Rightarrow> (error + unit) \<times> database" where
  "cancelTrustRequestSentToMe self trustRelationshipId db =
     (case trust_getById trustRelationshipId db of
        Inl e \<Rightarrow> (Inl e, db)
      | Inr trustRelationship \<Rightarrow>
          if trust_originator_entity_id trustRelationship \<noteq> getId self
          then (Inl (HttpError 403 ''Have no permission to cancel this relationship''), db)
          else
            (Inr (),
             trust_update
               (trustRelationship \<lparr> trust_state := Some TRUST_cancelled_by_originator \<rparr>) db))"

text \<open>
  \<^verbatim>\<open>checkTrust\<close>: the guard on the trust type throws the assertion library's own error;
  \<^verbatim>\<open>some\<close> then scans the caller's trusted relationships.
\<close>

definition checkTrust ::
  "environment \<Rightarrow> wallet \<Rightarrow> string \<Rightarrow> wallet \<Rightarrow> wallet \<Rightarrow> database \<Rightarrow> error + unit" where
  "checkTrust env self trustType sourceWallet targetWallet db =
     (if trustType \<notin> set (ENTITY_TRUST_REQUEST_TYPE_keys env) then Inl AssertionError
      else if list_ex
                (\<lambda>trustRelationship.
                   actor_entity_id trustRelationship = getId sourceWallet \<and>
                   target_entity_id trustRelationship = getId targetWallet \<and>
                   request_type trustRelationship = trustType)
                (getTrustRelationshipsTrusted self db)
      then Inr ()
      else Inl (HttpError 403 ''Have no permission to do this action''))"

subsection \<open>Transfers\<close>

definition hasControlOver :: "wallet \<Rightarrow> wallet \<Rightarrow> bool" where
  "hasControlOver self w = (if getId w = getId self then True else False)"

text \<open>The test of the \<^verbatim>\<open>catch\<close> clause: \<^verbatim>\<open>e instanceof HttpError && e.code === 403\<close>.\<close>

fun is_forbidden :: "error \<Rightarrow> bool" where
  "is_forbidden (HttpError code message) = (code = 403)"
| "is_forbidden AssertionError = False"
| "is_forbidden (JsError message) = False"

text \<open>The body of the \<^verbatim>\<open>catch\<close> clause of \<^verbatim>\<open>transfer\<close>, for the error caught.\<close>

definition transfer_catch ::
  "wallet \<Rightarrow> wallet \<Rightarrow> wallet \<Rightarrow> error \<Rightarrow> database \<Rightarrow> (error + unit) \<times> database" where
  "transfer_catch self sender receiver e db =
     (if is_forbidden e then
        if hasControlOver self sender then
          (case transfer_create
                  \<lparr> new_transfer_originator_entity_id = getId self,
                    new_source_entity_id = getId sender,
                    new_destination_entity_id = getId receiver,
                    new_transfer_state = STATE_pending \<rparr> db of
             (_, db') \<Rightarrow> (Inl (HttpError 202 ''No trust, saved''), db'))
        else if hasControlOver self receiver then
          (case transfer_create
                  \<lparr> new_transfer_originator_entity_id = getId self,
                    new_source_entity_id = getId sender,
                    new_destination_entity_id = getId receiver,
                    new_transfer_state = STATE_requested \<rparr> db of
             (_, db') \<Rightarrow> (Inl (HttpError 202 ''No trust, saved''), db'))
        else (Inl AssertionError, db)
      else (Inl e, db))"

definition transfer ::
  "environment \<Rightarrow> wallet \<Rightarrow> wallet \<Rightarrow> wallet \<Rightarrow> 'tokens \<Rightarrow> database \<Rightarrow> (error + unit) \<times> database" where
  "transfer env self sender receiver tokens db =
     (case checkTrust env self (ENTITY_TRUST_REQUEST_TYPE_send env) sender receiver db of
        Inr _ \<Rightarrow> (Inr (), db)
      | Inl e \<Rightarrow> transfer_catch self sender receiver e db)"

definition acceptTransfer :: "wallet \<Rightarrow> int \<Rightarrow> database \<Rightarrow> (error + unit) \<times> database" where
  "acceptTransfer self transferId db =
     (case transfer_getById transferId db of
        Inl e \<Rightarrow> (Inl e, db)
      | Inr t \<Rightarrow> (Inr (), transfer_update (t \<lparr> transfer_state := STATE_completed \<rparr>) db))"

definition declineTransfer :: "wallet \<Rightarrow> int \<Rightarrow> database \<Rightarrow> (error + unit) \<times> database" where
  "declineTransfer self transferId db =
     (case transfer_getById transferId db of
        Inl e \<Rightarrow> (Inl e, db)
      | Inr t \<Rightarrow> (Inr (), transfer_update (t \<lparr> transfer_state := STATE_cancelled \<rparr>) db))"

definition cancelTransfer :: "wallet \<Rightarrow> int \<Rightarrow> database \<Rightarrow> (error + unit) \<times> database" where
  "cancelTransfer self transferId db =
     (case transfer_getById transferId db of
        Inl e \<Rightarrow> (Inl e, db)
      | Inr t \<Rightarrow> (Inr (), transfer_update (t \<lparr> transfer_state := STATE_cancelled \<rparr>) db))"

definition fulfillTransfer :: "wallet \<Rightarrow> int \<Rightarrow> database \<Rightarrow> (error + unit) \<times> database" where
  "fulfillTransfer self transferId db =
     (case transfer_getById transferId db of
        Inl e \<Rightarrow> (Inl e, db)
      | Inr t \<Rightarrow>
          if source_entity_id t \<noteq> getId self
          then (Inl (HttpError 403 ''Have no permission to do this operation''), db)
          else if transfer_state t \<noteq> STATE_requested
          then (Inl (HttpError 403 ''Operation forbidden, the transfer state is wrong''), db)
          else (Inr (), transfer_update (t \<lparr> transfer_state := STATE_completed \<rparr>) db))"

section \<open>Example data\<close>

definition example_env :: environment where
  "example_env =
     \<lparr> ENTITY_TRUST_REQUEST_TYPE_keys = [''send'', ''receive''],
       ENTITY_TRUST_REQUEST_TYPE_send = ''send'',
       entity_trust_type_default = None,
       entity_trust_state_default = Some TRUST_requested,
       null_is_defined = True \<rparr>"

definition example_wallets :: "wallet_record list" where
  "example_wallets =
     [\<lparr> wallet_id = 1, wallet_name = ''alice'', password = ''s1:secret'', salt = ''s1'' \<rparr>,
      \<lparr> wallet_id = 2, wallet_name = ''bob'', password = ''h2'', salt = ''s2'' \<rparr>,
      \<lparr> wallet_id = 3, wallet_name = ''carol'', password = ''h3'', salt = ''s3'' \<rparr>]"

definition empty_db :: database where
  "empty_db =
     \<lparr> wallets = example_wallets, entity_trust = [], entity_trust_seq = 1,
       transfers = [], transfers_seq = 1 \<rparr>"

text \<open>A stand-in for the keyed hash, for evaluating \<open>authorize\<close> on the example wallets.\<close>

definition example_hmac :: "string \<Rightarrow> string \<Rightarrow> string" where
  "example_hmac k m = k @ '':'' @ m"

definition example_trust_row :: "int \<Rightarrow> trust_state option \<Rightarrow> trust_relationship" where
  "example_trust_row i s =
     \<lparr> trust_id = i, request_type = ''send'', trust_type = None, actor_entity_id = 1,
       trust_originator_entity_id = 1, target_entity_id = 2, trust_state = s \<rparr>"

definition trust_db :: "trust_state option \<Rightarrow> database" where
  "trust_db s = empty_db \<lparr> entity_trust := [example_trust_row 1 s], entity_trust_seq := 2 \<rparr>"

definition example_transfer_row :: "int \<Rightarrow> transfer_state \<Rightarrow> transfer_record" where
  "example_transfer_row i s =
     \<lparr> transfer_id = i, transfer_originator_entity_id = 2, source_entity_id = 1,
       destination_entity_id = 2, transfer_state = s \<rparr>"

definition transfer_db :: "transfer_state \<Rightarrow> database" where
  "transfer_db s = empty_db \<lparr> transfers := [example_transfer_row 1 s], transfers_seq := 2 \<rparr>"



section \<open>Lookup and update by id\<close>

lemma find_key: "find (\<lambda>x. f x = k) xs = Some t \<Longrightarrow> f t = k"
  by (induction xs) (auto split: if_splits)

lemma find_map_replace:
  "find (\<lambda>x. f x = k) xs = Some t \<Longrightarrow> f t' = k \<Longrightarrow>
   find (\<lambda>x. f x = k) (map (\<lambda>x. if f x = k then t' else x) xs) = Some t'"
  by (induction xs) (auto split: if_splits)

lemma transfer_getById_update:
  assumes "transfer_getById i db = Inr t" and "transfer_id t' = transfer_id t"
  shows "transfer_getById i (transfer_update t' db) = Inr t'"
proof -
  from assms(1) have f: "find (\<lambda>x. transfer_id x = i) (transfers db) = Some t"
    by (simp add: transfer_getById_def split: option.splits)
  then have "transfer_id t = i" by (rule find_key)
  with f assms(2) show ?thesis
    by (simp add: transfer_getById_def transfer_update_def find_map_replace)
qed

lemma wallet_getById_id: "wallet_getById i db = Inr w \<Longrightarrow> wallet_id w = i"
  by (auto simp: wallet_getById_def split: option.splits dest: find_key)

section \<open>The trust-gated transfer\<close>

text \<open>
  C1. Whenever the acting wallet's trust check for (send, sender, receiver) fails with
  Forbidden (an \<open>HttpError\<close> of code 403) and the sender's id is the acting wallet's id,
  \<open>transfer\<close> appends exactly one row to the transfer table and changes nothing else but the
  id sequence: the row has \<open>originator_entity_id\<close> the acting wallet's id,
  \<open>source_entity_id\<close> the sender's id, \<open>destination_entity_id\<close> the receiver's id and state
  \<open>pending\<close>; and the call ends with \<open>HttpError 202\<close>, which is neither a normal return nor
  an error of a 4xx code.
\<close>

theorem transfer_pending_when_sender_controlled:
  assumes "checkTrust env self (ENTITY_TRUST_REQUEST_TYPE_send env) sender receiver db
             = Inl (HttpError 403 m)"
      and "getId sender = getId self"
  shows "transfer env self sender receiver tokens db =
           (Inl (HttpError 202 ''No trust, saved''),
            db \<lparr> transfers := transfers db @
                    [\<lparr> transfer_id = transfers_seq db,
                       transfer_originator_entity_id = getId self,
                       source_entity_id = getId sender,
                       destination_entity_id = getId receiver,
                       transfer_state = STATE_pending \<rparr>],
                 transfers_seq := transfers_seq db + 1 \<rparr>)"
  using assms
  by (simp add: transfer_def transfer_catch_def hasControlOver_def transfer_create_def
      inserted_transfer_row_def)

theorem transfer_pending_witness:
  "checkTrust example_env (Wallet 1) (ENTITY_TRUST_REQUEST_TYPE_send example_env)
       (Wallet 1) (Wallet 3) empty_db
     = Inl (HttpError 403 ''Have no permission to do this action'')
   \<and> getId (Wallet 1) = getId (Wallet 1)
   \<and> transfer example_env (Wallet 1) (Wallet 1) (Wallet 3) (5::nat) empty_db =
       (Inl (HttpError 202 ''No trust, saved''),
        empty_db \<lparr> transfers :=
                      [\<lparr> transfer_id = 1, transfer_originator_entity_id = 1, source_entity_id = 1,
                         destination_entity_id = 3, transfer_state = STATE_pending \<rparr>],
                   transfers_seq := 2 \<rparr>)"
proof -
  have h: "checkTrust example_env (Wallet 1) (ENTITY_TRUST_REQUEST_TYPE_send example_env)
             (Wallet 1) (Wallet 3) empty_db
           = Inl (HttpError 403 ''Have no permission to do this action'')"
    by (simp add: checkTrust_def example_env_def empty_db_def getTrustRelationshipsTrusted_def
        getTrustedByOriginatorId_def)
  show ?thesis
    using h transfer_pending_when_sender_controlled [OF h, of "5::nat"]
    by (simp add: empty_db_def)
qed



section \<open>Resolving a transfer\<close>

text \<open>
  C4. For a transfer that the store holds under the id given, \<open>fulfillTransfer\<close> fails with
  Forbidden when the caller's id differs from the transfer's \<open>source_entity_id\<close>; it fails
  with Forbidden when the transfer's state is not \<open>requested\<close>, whoever calls; and when the
  caller is the source and the state is \<open>requested\<close> it succeeds and the store then holds
  the transfer with state \<open>completed\<close>.
\<close>

theorem fulfillTransfer_checks:
  assumes "transfer_getById transferId db = Inr t"
  shows "(source_entity_id t \<noteq> getId self \<longrightarrow>
            fulfillTransfer self transferId db =
              (Inl (HttpError 403 ''Have no permission to do this operation''), db))
       \<and> (transfer_state t \<noteq> STATE_requested \<longrightarrow>
            (\<exists>m. fulfillTransfer self transferId db = (Inl (HttpError 403 m), db)))
       \<and> (source_entity_id t = getId self \<and> transfer_state t = STATE_requested \<longrightarrow>
            fulfillTransfer self transferId db =
              (Inr (), transfer_update (t \<lparr> transfer_state := STATE_completed \<rparr>) db)
            \<and> transfer_getById transferId
                 (transfer_update (t \<lparr> transfer_state := STATE_completed \<rparr>) db)
               = Inr (t \<lparr> transfer_state := STATE_completed \<rparr>))"
  using assms transfer_getById_update [OF assms, of "t \<lparr> transfer_state := STATE_completed \<rparr>"]
  by (simp add: fulfillTransfer_def)

theorem fulfillTransfer_checks_witness:
  "transfer_getById 1 (transfer_db STATE_requested) = Inr (example_transfer_row 1 STATE_requested)
   \<and> fulfillTransfer (Wallet 2) 1 (transfer_db STATE_requested)
       = (Inl (HttpError 403 ''Have no permission to do this operation''),
          transfer_db STATE_requested)
   \<and> fulfillTransfer (Wallet 1) 1 (transfer_db STATE_requested)
       = (Inr (), transfer_db STATE_completed)
   \<and> transfer_getById 1 (transfer_db STATE_pending) = Inr (example_transfer_row 1 STATE_pending)
   \<and> (\<exists>m. fulfillTransfer (Wallet 1) 1 (transfer_db STATE_pending)
           = (Inl (HttpError 403 m), transfer_db STATE_pending))"
proof -
  have a: "transfer_getById 1 (transfer_db STATE_requested)
           = Inr (example_transfer_row 1 STATE_requested)"
    by (simp add: transfer_getById_def transfer_db_def example_transfer_row_def)
  have b: "transfer_getById 1 (transfer_db STATE_pending)
           = Inr (example_transfer_row 1 STATE_pending)"
    by (simp add: transfer_getById_def transfer_db_def example_transfer_row_def)
  have u: "transfer_update (example_transfer_row 1 STATE_requested
             \<lparr> transfer_state := STATE_completed \<rparr>) (transfer_db STATE_requested)
           = transfer_db STATE_completed"
    by (simp add: transfer_update_def transfer_db_def example_transfer_row_def)
  have s: "source_entity_id (example_transfer_row 1 st) = 1"
    "transfer_state (example_transfer_row 1 st) = st" for st
    by (simp_all add: example_transfer_row_def)
  show ?thesis
    using a b fulfillTransfer_checks [OF a, of "Wallet 2"]
      fulfillTransfer_checks [OF a, of "Wallet 1"]
      fulfillTransfer_checks [OF b, of "Wallet 1"]
    by (simp add: u s)
qed

text \<open>
  C10. \<open>acceptTransfer\<close>, \<open>declineTransfer\<close> and \<open>cancelTransfer\<close> look at neither the caller
  nor the state of the transfer: for a transfer that the store holds under the id given,
  whoever calls and whatever the state, \<open>acceptTransfer\<close> succeeds and sets the state to
  \<open>completed\<close>, and \<open>declineTransfer\<close> and \<open>cancelTransfer\<close> succeed and set it to
  \<open>cancelled\<close>. The witness moves a \<open>cancelled\<close> transfer to \<open>completed\<close> and a \<open>completed\<close>
  one to \<open>cancelled\<close>, by a wallet that is neither its source nor its destination.
\<close>

theorem transfer_resolution_unconditional:
  assumes "transfer_getById transferId db = Inr t"
  shows "acceptTransfer self transferId db =
           (Inr (), transfer_update (t \<lparr> transfer_state := STATE_completed \<rparr>) db)
       \<and> declineTransfer self transferId db =
           (Inr (), transfer_update (t \<lparr> transfer_state := STATE_cancelled \<rparr>) db)
       \<and> cancelTransfer self transferId db =
           (Inr (), transfer_update (t \<lparr> transfer_state := STATE_cancelled \<rparr>) db)
       \<and> transfer_getById transferId (transfer_update (t \<lparr> transfer_state := s \<rparr>) db)
           = Inr (t \<lparr> transfer_state := s \<rparr>)"
  using assms transfer_getById_update [OF assms, of "t \<lparr> transfer_state := s \<rparr>"]
  by (simp add: acceptTransfer_def declineTransfer_def cancelTransfer_def)

theorem transfer_resolution_witness:
  "transfer_getById 1 (transfer_db STATE_cancelled) = Inr (example_transfer_row 1 STATE_cancelled)
   \<and> acceptTransfer (Wallet 3) 1 (transfer_db STATE_cancelled) = (Inr (), transfer_db STATE_completed)
   \<and> transfer_getById 1 (transfer_db STATE_completed) = Inr (example_transfer_row 1 STATE_completed)
   \<and> declineTransfer (Wallet 3) 1 (transfer_db STATE_completed)
       = (Inr (), transfer_db STATE_cancelled)
   \<and> cancelTransfer (Wallet 3) 1 (transfer_db STATE_completed)
       = (Inr (), transfer_db STATE_cancelled)"
proof -
  have a: "transfer_getById 1 (transfer_db STATE_cancelled)
           = Inr (example_transfer_row 1 STATE_cancelled)"
    by (simp add: transfer_getById_def transfer_db_def example_transfer_row_def)
  have b: "transfer_getById 1 (transfer_db STATE_completed)
           = Inr (example_transfer_row 1 STATE_completed)"
    by (simp add: transfer_getById_def transfer_db_def example_transfer_row_def)
  have u: "transfer_update (example_transfer_row 1 s \<lparr> transfer_state := s' \<rparr>) (transfer_db s)
           = transfer_db s'" for s s'
    by (simp add: transfer_update_def transfer_db_def example_transfer_row_def)
  show ?thesis
    using a b transfer_resolution_unconditional [OF a, of "Wallet 3"]
      transfer_resolution_unconditional [OF b, of "Wallet 3"]
    by (simp add: u)
qed

section \<open>Authentication\<close>

text \<open>
  C9. \<open>authorize\<close> fails with \<open>HttpError 400\<close> (InvalidInput) when the password is absent
  or empty. Otherwise, for a wallet whose record the store holds, it takes the keyed hash
  of the password under the record's salt: when that differs from the stored hash it fails
  with \<open>HttpError 401\<close> (Unauthorized), and when it is equal it returns an object whose only
  field is the wallet's id.
\<close>

theorem authorize_cases:
  "authorize h self None db = Inl (HttpError 400 ''Error: Invalid credential format'')
   \<and> authorize h self (Some []) db = Inl (HttpError 400 ''Error: Invalid credential format'')
   \<and> (p \<noteq> [] \<and> toJSON self db = Inr w \<longrightarrow>
        wallet_id w = getId self
        \<and> authorize h self (Some p) db =
            (if h (salt w) p \<noteq> password w then Inl (HttpError 401 ''Invalid credentials'')
             else Inr \<lparr> authorized_id = getId self \<rparr>))"
  by (auto simp: authorize_def sha512_def toJSON_def dest: wallet_getById_id)

theorem authorize_cases_witness:
  "toJSON (Wallet 1) empty_db
     = Inr \<lparr> wallet_id = 1, wallet_name = ''alice'', password = ''s1:secret'', salt = ''s1'' \<rparr>
   \<and> authorize example_hmac (Wallet 1) (Some ''secret'') empty_db = Inr \<lparr> authorized_id = 1 \<rparr>
   \<and> authorize example_hmac (Wallet 1) (Some ''guess'') empty_db
       = Inl (HttpError 401 ''Invalid credentials'')"
proof -
  have a: "toJSON (Wallet 1) empty_db
     = Inr \<lparr> wallet_id = 1, wallet_name = ''alice'', password = ''s1:secret'', salt = ''s1'' \<rparr>"
    by (simp add: toJSON_def wallet_getById_def empty_db_def example_wallets_def)
  show ?thesis
    using a authorize_cases [of example_hmac "Wallet 1" empty_db "''secret''"]
      authorize_cases [of example_hmac "Wallet 1" empty_db "''guess''"]
    by (simp add: example_hmac_def)
qed

section \<open>Finding a trust relationship by id\<close>

lemma fold_pick_None:
  "(fold (\<lambda>c a. if f c = k then Some c else a) xs a = None)
     = (a = None \<and> \<not> list_ex (\<lambda>c. f c = k) xs)"
  by (induction xs arbitrary: a) auto

lemma fold_pick_no_match:
  "\<not> list_ex (\<lambda>c. f c = k) xs \<Longrightarrow> fold (\<lambda>c a. if f c = k then Some c else a) xs a = a"
  by (induction xs arbitrary: a) auto

lemma fold_pick_distinct:
  "distinct (map f xs) \<Longrightarrow> r \<in> set xs \<Longrightarrow>
   fold (\<lambda>c a. if f c = f r then Some c else a) xs a = Some r"
proof (induction xs arbitrary: a)
  case Nil
  then show ?case by simp
next
  case (Cons x xs)
  show ?case
  proof (cases "r = x")
    case True
    from Cons.prems(1) have "f x \<notin> f ` set xs" by simp
    then have "\<not> list_ex (\<lambda>c. f c = f x) xs"
      unfolding list_ex_iff by (metis imageI)
    then show ?thesis using True by (simp add: fold_pick_no_match)
  next
    case False
    with Cons.prems have "r \<in> set xs" "distinct (map f xs)" by auto
    then show ?thesis using Cons.IH by simp
  qed
qed

lemma find_distinct:
  "distinct (map f xs) \<Longrightarrow> r \<in> set xs \<Longrightarrow> find (\<lambda>x. f x = f r) xs = Some r"
  by (induction xs) (auto simp: image_iff)

lemma find_by_reduce_None:
  "(find_by_reduce k xs = None) = (\<not> list_ex (\<lambda>r. trust_id r = k) xs)"
  by (simp add: find_by_reduce_def fold_pick_None)

lemma find_by_reduce_distinct:
  "distinct (map trust_id xs) \<Longrightarrow> r \<in> set xs \<Longrightarrow> find_by_reduce (trust_id r) xs = Some r"
  unfolding find_by_reduce_def by (rule fold_pick_distinct)

lemma targeted_ex:
  "list_ex (\<lambda>r. trust_id r = k) (getTrustRelationshipsTargeted self db)
     = (\<exists>r \<in> set (entity_trust db). target_entity_id r = getId self \<and> trust_id r = k)"
  by (auto simp: getTrustRelationshipsTargeted_def getByTargetId_def list_ex_iff)

lemma trust_getById_update:
  assumes "trust_getById i db = Inr t" and "trust_id t' = trust_id t"
  shows "trust_getById i (trust_update t' db) = Inr t'"
proof -
  from assms(1) have f: "find (\<lambda>x. trust_id x = i) (entity_trust db) = Some t"
    by (simp add: trust_getById_def split: option.splits)
  then have "trust_id t = i" by (rule find_key)
  with f assms(2) show ?thesis
    by (simp add: trust_getById_def trust_update_def find_map_replace)
qed

lemma trust_getById_distinct:
  "distinct (map trust_id (entity_trust db)) \<Longrightarrow> r \<in> set (entity_trust db) \<Longrightarrow>
   trust_getById (trust_id r) db = Inr r"
  by (simp add: trust_getById_def find_distinct)

lemma trust_update_example:
  "trust_update (example_trust_row 1 s \<lparr> trust_state := s' \<rparr>) (trust_db s) = trust_db s'"
  by (simp add: trust_update_def trust_db_def example_trust_row_def)

lemma example_trust_row_sel:
  "trust_id (example_trust_row i s) = i"
  "target_entity_id (example_trust_row i s) = 2"
  "trust_originator_entity_id (example_trust_row i s) = 1"
  "actor_entity_id (example_trust_row i s) = 1"
  "request_type (example_trust_row i s) = ''send''"
  "trust_state (example_trust_row i s) = s"
  by (simp_all add: example_trust_row_def)

section \<open>The trust check\<close>

text \<open>
  C2, as amended. For a request type among the keys of \<^verbatim>\<open>ENTITY_TRUST_REQUEST_TYPE\<close>,
  \<open>checkTrust\<close> succeeds if and only if the table holds a relationship with
  \<open>originator_entity_id\<close> the acting wallet's id, state \<open>trusted\<close>, \<open>actor_entity_id\<close> the
  source's id, \<open>target_entity_id\<close> the target's id and that request type; whenever it does
  not succeed it fails with Forbidden (\<open>HttpError 403\<close>). For a request type outside the
  keys it fails with the assertion library's error, which is not \<open>HttpError 403\<close>, whatever
  the table holds.
\<close>

theorem checkTrust_known_request_type:
  "(trustType \<in> set (ENTITY_TRUST_REQUEST_TYPE_keys env) \<longrightarrow>
      ((checkTrust env self trustType source target db = Inr ()) =
         (\<exists>r \<in> set (entity_trust db).
            trust_originator_entity_id r = getId self \<and> trust_state r = Some TRUST_trusted \<and>
            actor_entity_id r = getId source \<and> target_entity_id r = getId target \<and>
            request_type r = trustType))
      \<and> (checkTrust env self trustType source target db \<noteq> Inr () \<longrightarrow>
           checkTrust env self trustType source target db =
             Inl (HttpError 403 ''Have no permission to do this action'')))
   \<and> (trustType \<notin> set (ENTITY_TRUST_REQUEST_TYPE_keys env) \<longrightarrow>
        checkTrust env self trustType source target db = Inl AssertionError)"
  by (auto simp: checkTrust_def getTrustRelationshipsTrusted_def getTrustedByOriginatorId_def
      list_ex_iff)

theorem checkTrust_known_request_type_witness:
  "''send'' \<in> set (ENTITY_TRUST_REQUEST_TYPE_keys example_env)
   \<and> checkTrust example_env (Wallet 1) ''send'' (Wallet 1) (Wallet 2) (trust_db (Some TRUST_trusted))
       = Inr ()
   \<and> checkTrust example_env (Wallet 1) ''send'' (Wallet 1) (Wallet 2)
         (trust_db (Some TRUST_requested))
       = Inl (HttpError 403 ''Have no permission to do this action'')
   \<and> ''borrow'' \<notin> set (ENTITY_TRUST_REQUEST_TYPE_keys example_env)
   \<and> checkTrust example_env (Wallet 1) ''borrow'' (Wallet 1) (Wallet 2)
         (trust_db (Some TRUST_trusted))
       = Inl AssertionError"
proof -
  have e: "entity_trust (trust_db s) = [example_trust_row 1 s]" for s
    by (simp add: trust_db_def)
  have k: "ENTITY_TRUST_REQUEST_TYPE_keys example_env = [''send'', ''receive'']"
    by (simp add: example_env_def)
  show ?thesis
    using checkTrust_known_request_type
        [of "''send''" example_env "Wallet 1" "Wallet 1" "Wallet 2" "trust_db (Some TRUST_trusted)"]
      checkTrust_known_request_type
        [of "''send''" example_env "Wallet 1" "Wallet 1" "Wallet 2"
          "trust_db (Some TRUST_requested)"]
      checkTrust_known_request_type
        [of "''borrow''" example_env "Wallet 1" "Wallet 1" "Wallet 2"
          "trust_db (Some TRUST_trusted)"]
    by (simp add: e k example_trust_row_sel)
qed

text \<open>
  C2 as the spec states it fails: the acting wallet holds no trusted relationship for the
  triple, so the claim demands Forbidden, and the guard on the trust type throws the
  assertion error first.
\<close>

theorem checkTrust_unknown_type_counterexample:
  "\<not> (\<exists>r \<in> set (entity_trust empty_db).
         trust_originator_entity_id r = getId (Wallet 1) \<and> trust_state r = Some TRUST_trusted \<and>
         actor_entity_id r = getId (Wallet 1) \<and> target_entity_id r = getId (Wallet 2) \<and>
         request_type r = ''borrow'')
   \<and> checkTrust example_env (Wallet 1) ''borrow'' (Wallet 1) (Wallet 2) empty_db
       = Inl AssertionError
   \<and> \<not> is_forbidden AssertionError"
  by (simp add: checkTrust_def example_env_def empty_db_def)

section \<open>Accepting, declining and cancelling a trust request\<close>

text \<open>
  C7. When no relationship of the id given has \<open>target_entity_id\<close> the caller's id,
  \<open>acceptTrustRequestSentToMe\<close> and \<open>declineTrustRequestSentToMe\<close> fail with Forbidden and
  leave the database as it was (and when one has, they succeed). For a relationship the
  store holds under the id given, \<open>cancelTrustRequestSentToMe\<close> fails with Forbidden when its
  \<open>originator_entity_id\<close> differs from the caller's id (and succeeds when it is equal).
\<close>

theorem trust_request_authorization:
  "(\<not> (\<exists>r \<in> set (entity_trust db). target_entity_id r = getId self \<and> trust_id r = rid) \<longrightarrow>
      acceptTrustRequestSentToMe self rid db =
        (Inl (HttpError 403 ''Have no permission to accept this relationship''), db)
      \<and> declineTrustRequestSentToMe self rid db =
        (Inl (HttpError 403 ''Have no permission to decline this relationship''), db))
   \<and> ((\<exists>r \<in> set (entity_trust db). target_entity_id r = getId self \<and> trust_id r = rid) \<longrightarrow>
        fst (acceptTrustRequestSentToMe self rid db) = Inr ()
        \<and> fst (declineTrustRequestSentToMe self rid db) = Inr ())
   \<and> (trust_getById rid db = Inr t \<longrightarrow>
        (trust_originator_entity_id t \<noteq> getId self \<longrightarrow>
           cancelTrustRequestSentToMe self rid db =
             (Inl (HttpError 403 ''Have no permission to cancel this relationship''), db))
        \<and> (trust_originator_entity_id t = getId self \<longrightarrow>
             fst (cancelTrustRequestSentToMe self rid db) = Inr ()))"
proof (cases "\<exists>r \<in> set (entity_trust db). target_entity_id r = getId self \<and> trust_id r = rid")
  case True
  then have "find_by_reduce rid (getTrustRelationshipsTargeted self db) \<noteq> None"
    by (simp add: find_by_reduce_None targeted_ex)
  then obtain x where "find_by_reduce rid (getTrustRelationshipsTargeted self db) = Some x"
    by auto
  with True show ?thesis
    by (simp add: acceptTrustRequestSentToMe_def declineTrustRequestSentToMe_def
        cancelTrustRequestSentToMe_def)
next
  case False
  then have "find_by_reduce rid (getTrustRelationshipsTargeted self db) = None"
    by (simp add: find_by_reduce_None targeted_ex)
  with False show ?thesis
    by (simp add: acceptTrustRequestSentToMe_def declineTrustRequestSentToMe_def
        cancelTrustRequestSentToMe_def)
qed

theorem trust_request_authorization_witness:
  "\<not> (\<exists>r \<in> set (entity_trust (trust_db (Some TRUST_requested))).
         target_entity_id r = getId (Wallet 3) \<and> trust_id r = 1)
   \<and> acceptTrustRequestSentToMe (Wallet 3) 1 (trust_db (Some TRUST_requested))
       = (Inl (HttpError 403 ''Have no permission to accept this relationship''),
          trust_db (Some TRUST_requested))
   \<and> declineTrustRequestSentToMe (Wallet 3) 1 (trust_db (Some TRUST_requested))
       = (Inl (HttpError 403 ''Have no permission to decline this relationship''),
          trust_db (Some TRUST_requested))
   \<and> (\<exists>r \<in> set (entity_trust (trust_db (Some TRUST_requested))).
         target_entity_id r = getId (Wallet 2) \<and> trust_id r = 1)
   \<and> fst (acceptTrustRequestSentToMe (Wallet 2) 1 (trust_db (Some TRUST_requested))) = Inr ()
   \<and> fst (declineTrustRequestSentToMe (Wallet 2) 1 (trust_db (Some TRUST_requested))) = Inr ()
   \<and> trust_getById 1 (trust_db (Some TRUST_requested))
       = Inr (example_trust_row 1 (Some TRUST_requested))
   \<and> cancelTrustRequestSentToMe (Wallet 2) 1 (trust_db (Some TRUST_requested))
       = (Inl (HttpError 403 ''Have no permission to cancel this relationship''),
          trust_db (Some TRUST_requested))
   \<and> fst (cancelTrustRequestSentToMe (Wallet 1) 1 (trust_db (Some TRUST_requested))) = Inr ()"
proof -
  have e: "entity_trust (trust_db s) = [example_trust_row 1 s]" for s
    by (simp add: trust_db_def)
  have g: "trust_getById 1 (trust_db s) = Inr (example_trust_row 1 s)" for s
    by (simp add: trust_getById_def trust_db_def example_trust_row_def)
  show ?thesis
    using trust_request_authorization
        [of "trust_db (Some TRUST_requested)" "Wallet 3" 1
          "example_trust_row 1 (Some TRUST_requested)"]
      trust_request_authorization
        [of "trust_db (Some TRUST_requested)" "Wallet 2" 1
          "example_trust_row 1 (Some TRUST_requested)"]
      trust_request_authorization
        [of "trust_db (Some TRUST_requested)" "Wallet 1" 1
          "example_trust_row 1 (Some TRUST_requested)"]
    by (simp add: e g example_trust_row_sel)
qed

text \<open>
  C3, as amended. None of the three operations reads the state of the relationship. With
  ids unique in the table, for a relationship whose target is the caller
  \<open>acceptTrustRequestSentToMe\<close> succeeds and sets the state to \<open>trusted\<close> and
  \<open>declineTrustRequestSentToMe\<close> succeeds and sets it to \<open>canceled_by_target\<close>, and for a
  relationship whose originator is the caller \<open>cancelTrustRequestSentToMe\<close> succeeds and
  sets it to \<open>cancelled_by_originator\<close>: whatever the state was, terminal or not. The store
  then holds the relationship with the new state.
\<close>

theorem trust_transitions_ignore_state:
  assumes "distinct (map trust_id (entity_trust db))" and "r \<in> set (entity_trust db)"
  shows "(target_entity_id r = getId self \<longrightarrow>
            acceptTrustRequestSentToMe self (trust_id r) db =
              (Inr (), trust_update (r \<lparr> trust_state := Some TRUST_trusted \<rparr>) db)
            \<and> declineTrustRequestSentToMe self (trust_id r) db =
              (Inr (), trust_update (r \<lparr> trust_state := Some TRUST_canceled_by_target \<rparr>) db))
       \<and> (trust_originator_entity_id r = getId self \<longrightarrow>
            cancelTrustRequestSentToMe self (trust_id r) db =
              (Inr (),
               trust_update (r \<lparr> trust_state := Some TRUST_cancelled_by_originator \<rparr>) db))
       \<and> trust_getById (trust_id r) (trust_update (r \<lparr> trust_state := s \<rparr>) db)
           = Inr (r \<lparr> trust_state := s \<rparr>)"
proof -
  have g: "trust_getById (trust_id r) db = Inr r"
    using assms by (rule trust_getById_distinct)
  have t: "find_by_reduce (trust_id r) (getTrustRelationshipsTargeted self db) = Some r"
    if "target_entity_id r = getId self"
  proof -
    have "distinct (map trust_id (getTrustRelationshipsTargeted self db))"
      using assms(1)
      by (simp add: getTrustRelationshipsTargeted_def getByTargetId_def distinct_map_filter)
    moreover have "r \<in> set (getTrustRelationshipsTargeted self db)"
      using assms(2) that by (simp add: getTrustRelationshipsTargeted_def getByTargetId_def)
    ultimately show ?thesis by (rule find_by_reduce_distinct)
  qed
  have u: "trust_getById (trust_id r) (trust_update (r \<lparr> trust_state := s \<rparr>) db)
           = Inr (r \<lparr> trust_state := s \<rparr>)"
    using g by (rule trust_getById_update) simp
  show ?thesis
    using g t u
    by (simp add: acceptTrustRequestSentToMe_def declineTrustRequestSentToMe_def
        cancelTrustRequestSentToMe_def)
qed

theorem trust_transitions_witness:
  "distinct (map trust_id (entity_trust (trust_db (Some TRUST_canceled_by_target))))
   \<and> example_trust_row 1 (Some TRUST_canceled_by_target)
       \<in> set (entity_trust (trust_db (Some TRUST_canceled_by_target)))
   \<and> acceptTrustRequestSentToMe (Wallet 2) 1 (trust_db (Some TRUST_canceled_by_target))
       = (Inr (), trust_db (Some TRUST_trusted))
   \<and> declineTrustRequestSentToMe (Wallet 2) 1 (trust_db (Some TRUST_canceled_by_target))
       = (Inr (), trust_db (Some TRUST_canceled_by_target))
   \<and> cancelTrustRequestSentToMe (Wallet 1) 1 (trust_db (Some TRUST_canceled_by_target))
       = (Inr (), trust_db (Some TRUST_cancelled_by_originator))"
proof -
  have d: "distinct (map trust_id (entity_trust (trust_db (Some TRUST_canceled_by_target))))"
    by (simp add: trust_db_def)
  have m: "example_trust_row 1 (Some TRUST_canceled_by_target)
             \<in> set (entity_trust (trust_db (Some TRUST_canceled_by_target)))"
    by (simp add: trust_db_def)
  show ?thesis
    using d m trust_transitions_ignore_state [OF d m, of "Wallet 2"]
      trust_transitions_ignore_state [OF d m, of "Wallet 1"]
    by (simp add: example_trust_row_sel trust_update_example)
qed

text \<open>
  C3 as the spec states it fails: a relationship in the terminal state \<open>canceled_by_target\<close>
  is accepted and becomes \<open>trusted\<close>; a second accept on a \<open>trusted\<close> relationship is not
  rejected; and the originator's cancel moves a \<open>trusted\<close> relationship to
  \<open>cancelled_by_originator\<close>.
\<close>

theorem terminal_trust_state_left_counterexample:
  "acceptTrustRequestSentToMe (Wallet 2) 1 (trust_db (Some TRUST_canceled_by_target))
     = (Inr (), trust_db (Some TRUST_trusted))
   \<and> acceptTrustRequestSentToMe (Wallet 2) 1 (trust_db (Some TRUST_trusted))
     = (Inr (), trust_db (Some TRUST_trusted))
   \<and> cancelTrustRequestSentToMe (Wallet 1) 1 (trust_db (Some TRUST_trusted))
     = (Inr (), trust_db (Some TRUST_cancelled_by_originator))"
proof -
  have t: "getTrustRelationshipsTargeted (Wallet 2) (trust_db s) = [example_trust_row 1 s]" for s
    by (simp add: getTrustRelationshipsTargeted_def getByTargetId_def trust_db_def
        example_trust_row_def)
  have g: "trust_getById 1 (trust_db s) = Inr (example_trust_row 1 s)" for s
    by (simp add: trust_getById_def trust_db_def example_trust_row_def)
  show ?thesis
    by (simp add: acceptTrustRequestSentToMe_def cancelTrustRequestSentToMe_def t g
        find_by_reduce_def example_trust_row_sel trust_update_example)
qed

section \<open>Requesting trust\<close>


lemma matches_bob: "matches_non_whitespace ''bob''"
  by (simp add: matches_non_whitespace_def is_whitespace_def)

lemma first_request:
  "requestTrustFromAWallet example_env (Wallet 1) ''send'' ''bob'' empty_db
     = (Inr (Some (example_trust_row 1 (Some TRUST_requested))), trust_db (Some TRUST_requested))"
proof -
  have g: "getByName ''bob'' empty_db = Inr (Wallet 2)"
    by (simp add: getByName_def empty_db_def example_wallets_def)
  have r: "getTrustRelationshipsRequested (Wallet 1) empty_db = []"
    by (simp add: getTrustRelationshipsRequested_def getByOriginatorId_def empty_db_def)
  have k: "ENTITY_TRUST_REQUEST_TYPE_keys example_env = [''send'', ''receive'']"
    by (simp add: example_env_def)
  have c: "trust_create example_env
             \<lparr> new_request_type = ''send'', new_actor_entity_id = 1,
               new_originator_entity_id = 1, new_target_entity_id = 2 \<rparr> empty_db
           = (Some (example_trust_row 1 (Some TRUST_requested)), trust_db (Some TRUST_requested))"
    by (simp add: trust_create_def inserted_trust_row_def example_env_def empty_db_def
        trust_db_def example_trust_row_def)
  show ?thesis
    by (simp add: requestTrustFromAWallet_def k matches_bob g r c checkTrustRequestSentToMe_def)
qed



text \<open>
  C5, on the code. Wallet 1 asks wallet "bob" for \<^verbatim>\<open>send\<close> trust twice. The first call
  inserts row 1, whose column \<^verbatim>\<open>type\<close> is null: \<^verbatim>\<open>create\<close> writes \<^verbatim>\<open>request_type\<close>. The
  duplicate scan of the second call compares column \<^verbatim>\<open>type\<close> with the request type, finds
  nothing, and the second call succeeds and inserts row 2 for the same requester, target
  and type: it does not fail with Forbidden.
\<close>

theorem duplicate_request_not_detected:
  "requestTrustFromAWallet example_env (Wallet 1) ''send'' ''bob'' empty_db
     = (Inr (Some (example_trust_row 1 (Some TRUST_requested))), trust_db (Some TRUST_requested))
   \<and> requestTrustFromAWallet example_env (Wallet 1) ''send'' ''bob''
         (trust_db (Some TRUST_requested))
     = (Inr (Some (example_trust_row 2 (Some TRUST_requested))),
        empty_db \<lparr> entity_trust := [example_trust_row 1 (Some TRUST_requested),
                                    example_trust_row 2 (Some TRUST_requested)],
                   entity_trust_seq := 3 \<rparr>)"
proof -
  have g: "getByName ''bob'' (trust_db (Some TRUST_requested)) = Inr (Wallet 2)"
    by (simp add: getByName_def trust_db_def empty_db_def example_wallets_def)
  have r: "getTrustRelationshipsRequested (Wallet 1) (trust_db (Some TRUST_requested))
           = [example_trust_row 1 (Some TRUST_requested)]"
    by (simp add: getTrustRelationshipsRequested_def getByOriginatorId_def trust_db_def
        example_trust_row_def)
  have k: "ENTITY_TRUST_REQUEST_TYPE_keys example_env = [''send'', ''receive'']"
    by (simp add: example_env_def)
  have t: "trust_type (example_trust_row 1 (Some TRUST_requested)) = None"
    "null_is_defined example_env"
    by (simp_all add: example_trust_row_def example_env_def)
  have c: "trust_create example_env
             \<lparr> new_request_type = ''send'', new_actor_entity_id = 1,
               new_originator_entity_id = 1, new_target_entity_id = 2 \<rparr>
             (trust_db (Some TRUST_requested))
           = (Some (example_trust_row 2 (Some TRUST_requested)),
              empty_db \<lparr> entity_trust := [example_trust_row 1 (Some TRUST_requested),
                                          example_trust_row 2 (Some TRUST_requested)],
                         entity_trust_seq := 3 \<rparr>)"
    by (simp add: trust_create_def inserted_trust_row_def example_env_def empty_db_def
        trust_db_def example_trust_row_def)
  have second: "requestTrustFromAWallet example_env (Wallet 1) ''send'' ''bob''
         (trust_db (Some TRUST_requested))
     = (Inr (Some (example_trust_row 2 (Some TRUST_requested))),
        empty_db \<lparr> entity_trust := [example_trust_row 1 (Some TRUST_requested),
                                    example_trust_row 2 (Some TRUST_requested)],
                   entity_trust_seq := 3 \<rparr>)"
    by (simp add: requestTrustFromAWallet_def k matches_bob g r t c checkTrustRequestSentToMe_def)
  show ?thesis using first_request second by simp
qed

text \<open>
  The same for every environment and database: after a successful request, the same
  request does not fail with Forbidden, unless the table's default for column \<^verbatim>\<open>type\<close>
  happens to be that request type. (It succeeds again, or the assertion on a null \<^verbatim>\<open>type\<close>
  fails.)
\<close>

lemma some_trust_requested_append:
  "some_trust_requested env rt tid (xs @ ys) =
     (case some_trust_requested env rt tid xs of
        Inl e \<Rightarrow> Inl e
      | Inr True \<Rightarrow> Inr True
      | Inr False \<Rightarrow> some_trust_requested env rt tid ys)"
  by (induction xs) auto

lemma some_trust_requested_error:
  "some_trust_requested env rt tid xs = Inl e \<Longrightarrow> e = AssertionError"
  by (induction xs) (auto split: if_splits)

lemma some_trust_requested_default:
  "trust_type r \<noteq> Some rt \<Longrightarrow> some_trust_requested env rt tid [r] \<noteq> Inr True"
  by simp

lemma second_request_not_forbidden:
  assumes "requestTrustFromAWallet env self requestType targetWalletName db = (Inr result, db')"
      and "entity_trust_type_default env \<noteq> Some requestType"
  shows "fst (requestTrustFromAWallet env self requestType targetWalletName db')
           \<noteq> Inl (HttpError 403 m)"
proof -
  from assms(1) obtain targetWallet where
    g: "getByName targetWalletName db = Inr targetWallet" and
    v: "requestType \<in> set (ENTITY_TRUST_REQUEST_TYPE_keys env)"
       "matches_non_whitespace targetWalletName" and
    sc: "some_trust_requested env requestType (getId targetWallet)
           (getTrustRelationshipsRequested self db) = Inr False" and
    d: "db' = snd (trust_create env
                     \<lparr> new_request_type = requestType, new_actor_entity_id = getId self,
                       new_originator_entity_id = getId self,
                       new_target_entity_id = getId targetWallet \<rparr> db)"
    by (auto simp: requestTrustFromAWallet_def checkTrustRequestSentToMe_def
        split: if_splits sum.splits bool.splits prod.splits)
  let ?row = "inserted_trust_row env
                \<lparr> new_request_type = requestType, new_actor_entity_id = getId self,
                  new_originator_entity_id = getId self,
                  new_target_entity_id = getId targetWallet \<rparr> db"
  have g': "getByName targetWalletName db' = Inr targetWallet"
    using g d by (simp add: trust_create_def Let_def getByName_def)
  have rq: "getTrustRelationshipsRequested self db'
            = getTrustRelationshipsRequested self db @ [?row]"
    using d
    by (simp add: trust_create_def Let_def getTrustRelationshipsRequested_def
        getByOriginatorId_def inserted_trust_row_def)
  have "trust_type ?row \<noteq> Some requestType"
    using assms(2) by (simp add: inserted_trust_row_def)
  then have "some_trust_requested env requestType (getId targetWallet) [?row] \<noteq> Inr True"
    by (rule some_trust_requested_default)
  then have "some_trust_requested env requestType (getId targetWallet)
               (getTrustRelationshipsRequested self db') \<noteq> Inr True"
    using sc by (simp add: rq some_trust_requested_append)
  then show ?thesis
    using v g'
    by (auto simp: requestTrustFromAWallet_def checkTrustRequestSentToMe_def
        split: sum.splits bool.splits prod.splits dest: some_trust_requested_error)
qed

end
